theory Spec2Isabelle
  imports
    Complex_Main
    "HOL-Library.Multiset"
    "HOL-Library.Char_ord"
    "HOL-Library.List_Lexorder"
begin

section \<open>JavaScript values used by the extraction pipeline\<close>

text \<open>
  Strings are lists of code units; the model keeps the code units 0..255, which is the
  range of \<^typ>\<open>char\<close>.  A number held by a value is a finite double, kept as the rational
  it denotes; NaN and the infinities are no values of the data.  The sums and differences
  the validation computes are rounded as IEEE 754 binary64 arithmetic rounds them (see the
  subsection on double-precision arithmetic) and may overflow to an infinity.  The default
  ordering of \<open>Array.prototype.sort\<close> on strings is the lexicographic order on code
  units, which is the order of \<^typ>\<open>string\<close> here.
\<close>

datatype jsval =
    JUndefined
  | JNull
  | JBool bool
  | JNum rat
  | JStr string
  | JObject

text \<open>A row of a matrix handed to the exporter: an array of cells, or any other value.\<close>

datatype jsrow = Row "jsval list" | NotArray jsval

text \<open>Truthiness, as \<open>!v\<close>, \<open>v || d\<close> and \<open>v && w\<close> test it.\<close>

fun truthy :: "jsval \<Rightarrow> bool" where
  "truthy JUndefined = False"
| "truthy JNull = False"
| "truthy (JBool b) = b"
| "truthy (JNum n) = (n \<noteq> 0)"
| "truthy (JStr s) = (s \<noteq> [])"
| "truthy JObject = True"

text \<open>
  White space and line terminators removed by \<open>String.prototype.trim\<close>, among the code
  units below 256: TAB, LF, VT, FF, CR, SP and NBSP.
\<close>

definition isWhiteSpace :: "char \<Rightarrow> bool" where
  "isWhiteSpace c = (of_char c \<in> {9, 10, 11, 12, 13, 32, 160 :: nat})"

definition trim :: "string \<Rightarrow> string" where
  "trim s = rev (dropWhile isWhiteSpace (rev (dropWhile isWhiteSpace s)))"

text \<open>\<open>String.prototype.toLowerCase\<close> on code units below 256.\<close>

definition toLowerChar :: "char \<Rightarrow> char" where
  "toLowerChar c =
     (let n = (of_char c :: nat)
      in if (65 \<le> n \<and> n \<le> 90) \<or> (192 \<le> n \<and> n \<le> 222 \<and> n \<noteq> 215)
         then char_of (n + 32) else c)"

definition toLowerCase :: "string \<Rightarrow> string" where
  "toLowerCase s = map toLowerChar s"

text \<open>\<open>s.includes(p)\<close>: \<open>p\<close> occurs in \<open>s\<close> as a contiguous run.\<close>

fun startsWith :: "string \<Rightarrow> string \<Rightarrow> bool" where
  "startsWith s [] = True"
| "startsWith [] (p # ps) = False"
| "startsWith (c # cs) (p # ps) = (c = p \<and> startsWith cs ps)"

fun includesStr :: "string \<Rightarrow> string \<Rightarrow> bool" where
  "includesStr [] p = (p = [])"
| "includesStr (c # cs) p = (startsWith (c # cs) p \<or> includesStr cs p)"

text \<open>
  Built-ins of the host whose result the ECMAScript standard leaves to the implementation
  or that depend on the binary representation of a number are parameters of the model:
  \<^item> \<open>dateParseOther s\<close>: the time value in milliseconds of \<open>new Date(s)\<close> for a string that
    is not a valid calendar date in the form YYYY-MM-DD; \<open>None\<close> is an invalid date (NaN);
  \<^item> \<open>stringOf v\<close>: \<open>String(v)\<close> for a value that is not a string (for a number,
    \<open>Number.prototype.toString\<close>);
  \<^item> \<open>writeFile\<close>: the outcome of \<open>XLSX.writeFile\<close>, \<open>Some m\<close> when it throws an error
    with message \<open>m\<close>.
\<close>

record js_env =
  dateParseOther :: "string \<Rightarrow> int option"
  stringOf :: "jsval \<Rightarrow> string"
  writeFile :: "string \<Rightarrow> string option"

subsection \<open>Calendar dates\<close>

definition isDigit :: "char \<Rightarrow> bool" where
  "isDigit c = (48 \<le> (of_char c :: nat) \<and> (of_char c :: nat) \<le> 57)"

definition digitsValue :: "string \<Rightarrow> int" where
  "digitsValue s = foldl (\<lambda>acc c. 10 * acc + (int (of_char c) - 48)) 0 s"

text \<open>The regular expression \<open>/^\d{4}-\d{2}-\d{2}$/\<close>.\<close>

definition matchesDatePattern :: "string \<Rightarrow> bool" where
  "matchesDatePattern s =
     (length s = 10 \<and> list_all isDigit (take 4 s) \<and> s ! 4 = CHR ''-''
      \<and> list_all isDigit (take 2 (drop 5 s)) \<and> s ! 7 = CHR ''-''
      \<and> list_all isDigit (drop 8 s))"

text \<open>Day arithmetic of the ECMAScript standard (DayFromYear, InLeapYear, MakeDay).\<close>

definition dayFromYear :: "int \<Rightarrow> int" where
  "dayFromYear y =
     365 * (y - 1970) + (y - 1969) div 4 - (y - 1901) div 100 + (y - 1601) div 400"

definition inLeapYear :: "int \<Rightarrow> bool" where
  "inLeapYear y = (y mod 4 = 0 \<and> (y mod 100 \<noteq> 0 \<or> y mod 400 = 0))"

definition daysInMonth :: "int \<Rightarrow> int \<Rightarrow> int" where
  "daysInMonth y m =
     (if m = 2 then (if inLeapYear y then 29 else 28)
      else if m = 4 \<or> m = 6 \<or> m = 9 \<or> m = 11 then 30 else 31)"

definition daysBeforeMonth :: "int \<Rightarrow> int \<Rightarrow> int" where
  "daysBeforeMonth y m = sum_list (map (daysInMonth y) [1 .. m - 1])"

text \<open>
  The day number (days since 1970-01-01) of a string in the date-only form YYYY-MM-DD of
  the standard's date-time string format, when it names a day of the calendar.
\<close>

definition isoDateDay :: "string \<Rightarrow> int option" where
  "isoDateDay s =
     (if matchesDatePattern s then
        (let y = digitsValue (take 4 s);
             m = digitsValue (take 2 (drop 5 s));
             d = digitsValue (drop 8 s)
         in if 1 \<le> m \<and> m \<le> 12 \<and> 1 \<le> d \<and> d \<le> daysInMonth y m
            then Some (dayFromYear y + daysBeforeMonth y m + d - 1)
            else None)
      else None)"

text \<open>
  \<open>new Date(s).getTime()\<close>: a date-only string is midnight UTC of that day; every other
  string is left to the host.
\<close>

definition newDate :: "js_env \<Rightarrow> string \<Rightarrow> int option" where
  "newDate env s =
     (case isoDateDay s of
        Some day \<Rightarrow> Some (day * 86400000)
      | None \<Rightarrow> dateParseOther env s)"


subsection \<open>Double-precision arithmetic\<close>

text \<open>
  The number of binary digits of a positive integer, and the integer powers of two.
\<close>

function bitLength :: "int \<Rightarrow> int" where
  "bitLength n = (if n \<le> 0 then 0 else 1 + bitLength (n div 2))"
  by pat_completeness auto
termination
  by (relation "measure nat") auto

declare bitLength.simps [simp del]

definition pow2 :: "int \<Rightarrow> rat" where
  "pow2 k = (if k \<ge> 0 then 2 ^ nat k else 1 / 2 ^ nat (- k))"

text \<open>The exponent \<open>e\<close> of a positive rational \<open>a\<close>: \<open>2^e \<le> a < 2^(e + 1)\<close>.\<close>

definition binaryExponent :: "rat \<Rightarrow> int" where
  "binaryExponent a =
     (if a \<ge> 1 then bitLength \<lfloor>a\<rfloor> - 1 else - bitLength (\<lceil>1 / a\<rceil> - 1))"

text \<open>Rounding to the nearest integer, a tie going to the even one.\<close>

definition roundHalfEven :: "rat \<Rightarrow> int" where
  "roundHalfEven m =
     (let n = \<lfloor>m\<rfloor>; r = m - of_int n
      in if r < 1 / 2 then n else if r > 1 / 2 then n + 1 else if even n then n else n + 1)"

text \<open>The result of an arithmetic operation: a finite double, or an infinity.\<close>

datatype double_result = Finite rat | PlusInfinity | MinusInfinity

text \<open>
  The binary64 value of a real result \<open>x\<close>, rounded to nearest, ties to even: 53
  significant bits, the least exponent -1022 (below it the spacing stays \<open>2^-1074\<close>), and
  an infinity when the rounded magnitude reaches \<open>2^1024\<close>.
\<close>

definition toDouble :: "rat \<Rightarrow> double_result" where
  "toDouble x =
     (if x = 0 then Finite 0
      else
        (let e = max (binaryExponent \<bar>x\<bar>) (- 1022);
             ulp = pow2 (e - 52);
             y = of_int (roundHalfEven (x / ulp)) * ulp
         in if \<bar>y\<bar> \<ge> pow2 1024 then (if x > 0 then PlusInfinity else MinusInfinity)
            else Finite y))"

text \<open>\<open>sum + v\<close> for a computed \<open>sum\<close> and a finite \<open>v\<close>.\<close>

fun addDouble :: "double_result \<Rightarrow> rat \<Rightarrow> double_result" where
  "addDouble (Finite a) v = toDouble (a + v)"
| "addDouble PlusInfinity v = PlusInfinity"
| "addDouble MinusInfinity v = MinusInfinity"

text \<open>\<open>Math.abs(x - f)\<close> for a computed \<open>x\<close> and a finite \<open>f\<close>.\<close>

fun absDifference :: "double_result \<Rightarrow> rat \<Rightarrow> double_result" where
  "absDifference (Finite a) f =
     (case toDouble (a - f) of
        Finite d \<Rightarrow> Finite \<bar>d\<bar>
      | PlusInfinity \<Rightarrow> PlusInfinity
      | MinusInfinity \<Rightarrow> PlusInfinity)"
| "absDifference PlusInfinity f = PlusInfinity"
| "absDifference MinusInfinity f = PlusInfinity"

text \<open>\<open>d > t\<close> for a computed \<open>d\<close> and a finite \<open>t\<close>.\<close>

fun exceeds :: "double_result \<Rightarrow> rat \<Rightarrow> bool" where
  "exceeds (Finite d) t = (d > t)"
| "exceeds PlusInfinity t = True"
| "exceeds MinusInfinity t = False"

section \<open>Data model\<close>

text \<open>
  An optional field (\<open>debit?: number\<close>, \<open>balance: number | null\<close>) is an option: the
  code treats \<open>undefined\<close> and \<open>null\<close> alike wherever it reads one.
\<close>

record Transaction =
  date :: "string option"
  description :: "string option"
  debit :: "rat option"
  credit :: "rat option"
  balance :: "rat option"

record Header =
  bankName :: "string option"
  accountNumber :: "string option"
  accountHolderName :: "string option"
  statementPeriod :: "string option"
  statementDate :: "string option"
  openingBalance :: "rat option"

record Footer =
  closingBalance :: "rat option"
  totalDebits :: "rat option"
  totalCredits :: "rat option"
  totalWithdrawals :: "rat option"
  totalDeposits :: "rat option"
  summary :: "string option"

record StructuredPdfDataOutput =
  header :: "Header option"
  transactions :: "Transaction list"
  footer :: "Footer option"

section \<open>Validation of the extracted transactions\<close>

text \<open>
  The messages of \<open>validateTransactionData\<close>.  Each constructor is one template string of
  the source and carries the values the template interpolates:
  \<^item> \<open>NoTransactionsFound\<close>: "No transactions found";
  \<^item> \<open>MissingDate n\<close>: "Transaction n: Missing date";
  \<^item> \<open>MissingDescription n\<close>: "Transaction n: Missing description";
  \<^item> \<open>PotentialMissingTransactions a b\<close>: "Potential missing transactions between a and b";
  \<^item> \<open>TotalDebitsMismatch e f d\<close>: "Total debits mismatch: Extracted e, Footer shows f
    (Difference: d)", and likewise for credits, closing balance, withdrawals and deposits;
  \<^item> \<open>DebitPrecision n v\<close>: "Transaction n: Debit has more than 2 decimal places (v)", and
    likewise for credit and balance.
\<close>

datatype message =
    NoTransactionsFound
  | MissingDate nat
  | MissingDescription nat
  | PotentialMissingTransactions string string
  | TotalDebitsMismatch double_result rat double_result
  | TotalCreditsMismatch double_result rat double_result
  | ClosingBalanceMismatch double_result rat double_result
  | TotalWithdrawalsMismatch double_result rat double_result
  | TotalDepositsMismatch double_result rat double_result
  | DebitPrecision nat rat
  | CreditPrecision nat rat
  | BalancePrecision nat rat

record ValidationResult =
  isValid :: bool
  issues :: "message list"
  accuracyWarnings :: "message list"

text \<open>\<open>!s || s.trim() === ''\<close> for an optional string field.\<close>

definition fieldMissing :: "string option \<Rightarrow> bool" where
  "fieldMissing f = (case f of None \<Rightarrow> True | Some s \<Rightarrow> s = [] \<or> trim s = [])"

text \<open>The first \<open>forEach\<close>: the missing-field issues of the transaction at \<open>index\<close>.\<close>

definition requiredFieldIssues :: "nat \<Rightarrow> Transaction \<Rightarrow> message list" where
  "requiredFieldIssues index t =
     (if fieldMissing (date t) then [MissingDate (index + 1)] else [])
     @ (if fieldMissing (description t) then [MissingDescription (index + 1)] else [])"

text \<open>
  \<open>transactions.map(t => t.date).filter(d => typeof d === 'string' && d.trim() !== '').sort()\<close>
\<close>

definition sortedDates :: "Transaction list \<Rightarrow> string list" where
  "sortedDates txs =
     sort (filter (\<lambda>d. trim d \<noteq> [])
       (concat (map (\<lambda>t. case date t of None \<Rightarrow> [] | Some d \<Rightarrow> [d]) txs)))"

text \<open>
  \<open>Math.abs((currDate.getTime() - prevDate.getTime()) / (1000 * 60 * 60 * 24)) > 30\<close>; with
  an invalid date the difference is NaN and the comparison is false.
\<close>

definition daysDiffExceeds :: "js_env \<Rightarrow> string \<Rightarrow> string \<Rightarrow> bool" where
  "daysDiffExceeds env prevDate currDate =
     (case (newDate env prevDate, newDate env currDate) of
        (Some p, Some c) \<Rightarrow> \<bar>(of_int (c - p) :: rat) / (1000 * 60 * 60 * 24)\<bar> > 30
      | _ \<Rightarrow> False)"

text \<open>The loop over \<open>i = 1 .. dates.length - 1\<close>, comparing \<open>dates[i - 1]\<close> with \<open>dates[i]\<close>.\<close>

fun dateGapIssues :: "js_env \<Rightarrow> string list \<Rightarrow> message list" where
  "dateGapIssues env (d0 # d1 # rest) =
     (if daysDiffExceeds env d0 d1 then [PotentialMissingTransactions d0 d1] else [])
     @ dateGapIssues env (d1 # rest)"
| "dateGapIssues env [d] = []"
| "dateGapIssues env [] = []"

text \<open>
  \<open>transactions.map(t => t.debit || 0).reduce((sum, debit) => sum + debit, 0)\<close>: the
  amounts are added from left to right, each sum rounded to a double.
\<close>

definition extractedTotal ::
  "(Transaction \<Rightarrow> rat option) \<Rightarrow> Transaction list \<Rightarrow> double_result" where
  "extractedTotal field txs =
     foldl (\<lambda>sum v. addDouble sum v) (Finite 0)
       (map (\<lambda>t. case field t of None \<Rightarrow> 0 | Some v \<Rightarrow> v) txs)"

text \<open>\<open>const tolerance = 0.01\<close>: the double nearest to 0.01, which is a little above it.\<close>

definition tolerance :: rat where
  "tolerance = 5764607523034235 / 576460752303423488"

text \<open>
  One comparison of the footer block: with \<open>diff = Math.abs(extracted - f)\<close>, a warning
  when \<open>diff > tolerance\<close>.
\<close>

definition mismatch ::
  "(double_result \<Rightarrow> rat \<Rightarrow> double_result \<Rightarrow> message) \<Rightarrow> double_result \<Rightarrow> rat option
   \<Rightarrow> message list" where
  "mismatch mk extracted shown =
     (case shown of
        None \<Rightarrow> []
      | Some f \<Rightarrow>
          (if exceeds (absDifference extracted f) tolerance
           then [mk extracted f (absDifference extracted f)] else []))"

text \<open>
  The closing-balance comparison: made when the footer has a closing balance, there is a
  transaction, and the last transaction has a balance.
\<close>

definition closingBalanceWarning :: "Transaction list \<Rightarrow> Footer \<Rightarrow> message list" where
  "closingBalanceWarning txs f =
     (case closingBalance f of
        None \<Rightarrow> []
      | Some cb \<Rightarrow>
          (if length txs > 0 then
             (case balance (last txs) of
                None \<Rightarrow> []
              | Some lb \<Rightarrow> mismatch ClosingBalanceMismatch (Finite lb) (Some cb))
           else []))"

text \<open>The footer block: debits, credits, closing balance, withdrawals, deposits.\<close>

definition footerWarnings :: "Transaction list \<Rightarrow> Footer \<Rightarrow> message list" where
  "footerWarnings txs f =
     (let extractedTotalDebits = extractedTotal debit txs;
          extractedTotalCredits = extractedTotal credit txs
      in mismatch TotalDebitsMismatch extractedTotalDebits (totalDebits f)
         @ mismatch TotalCreditsMismatch extractedTotalCredits (totalCredits f)
         @ closingBalanceWarning txs f
         @ mismatch TotalWithdrawalsMismatch extractedTotalDebits (totalWithdrawals f)
         @ mismatch TotalDepositsMismatch extractedTotalCredits (totalDeposits f))"

text \<open>
  \<open>(v.toString().split('.')[1] || '').length\<close>: the length of the text between the first
  and the second dot of the number's string, 0 when it has no dot.
\<close>

definition decimalPlaces :: "js_env \<Rightarrow> rat \<Rightarrow> nat" where
  "decimalPlaces env v =
     length (takeWhile (\<lambda>c. c \<noteq> CHR ''.'')
       (drop 1 (dropWhile (\<lambda>c. c \<noteq> CHR ''.'') (stringOf env (JNum v)))))"

definition precisionWarning ::
  "js_env \<Rightarrow> (nat \<Rightarrow> rat \<Rightarrow> message) \<Rightarrow> nat \<Rightarrow> rat option \<Rightarrow> message list" where
  "precisionWarning env mk index field =
     (case field of
        None \<Rightarrow> []
      | Some v \<Rightarrow> (if decimalPlaces env v > 2 then [mk (index + 1) v] else []))"

text \<open>The second \<open>forEach\<close>: the precision warnings of the transaction at \<open>index\<close>.\<close>

definition precisionWarnings :: "js_env \<Rightarrow> nat \<Rightarrow> Transaction \<Rightarrow> message list" where
  "precisionWarnings env index t =
     precisionWarning env DebitPrecision index (debit t)
     @ precisionWarning env CreditPrecision index (credit t)
     @ precisionWarning env BalancePrecision index (balance t)"

definition validateTransactionData ::
  "js_env \<Rightarrow> Transaction list \<Rightarrow> Footer option \<Rightarrow> ValidationResult" where
  "validateTransactionData env txs ftr =
     (if txs = [] then
        \<lparr>isValid = False, issues = [NoTransactionsFound], accuracyWarnings = []\<rparr>
      else
        (let issues1 = concat (map (\<lambda>(index, t). requiredFieldIssues index t) (enumerate 0 txs));
             issues2 = issues1 @ dateGapIssues env (sortedDates txs);
             warnings1 = (case ftr of None \<Rightarrow> [] | Some f \<Rightarrow> footerWarnings txs f);
             warnings2 = warnings1
               @ concat (map (\<lambda>(index, t). precisionWarnings env index t) (enumerate 0 txs))
         in \<lparr>isValid = (length issues2 = 0), issues = issues2, accuracyWarnings = warnings2\<rparr>))"


section \<open>Formatting the structured document as a matrix\<close>

definition noDataMatrix :: "jsval list list" where
  "noDataMatrix =
     [[JStr ''No financial transaction data could be extracted from the document.'']]"

text \<open>\<open>if (v) excelData.push([label, v])\<close> for an optional string.\<close>

definition textRow :: "string \<Rightarrow> string option \<Rightarrow> jsval list list" where
  "textRow label v =
     (case v of None \<Rightarrow> [] | Some s \<Rightarrow> (if s \<noteq> [] then [[JStr label, JStr s]] else []))"

text \<open>\<open>if (v !== undefined && v !== null) excelData.push([label, v])\<close> for an optional number.\<close>

definition numberRow :: "string \<Rightarrow> rat option \<Rightarrow> jsval list list" where
  "numberRow label v = (case v of None \<Rightarrow> [] | Some n \<Rightarrow> [[JStr label, JNum n]])"

text \<open>The header section: one row per field that is present, then the empty row.\<close>

definition headerRows :: "Header \<Rightarrow> jsval list list" where
  "headerRows h =
     textRow ''Bank Name:'' (bankName h)
     @ textRow ''Account Number:'' (accountNumber h)
     @ textRow ''Account Holder:'' (accountHolderName h)
     @ textRow ''Statement Period:'' (statementPeriod h)
     @ textRow ''Statement Date:'' (statementDate h)
     @ numberRow ''Opening Balance:'' (openingBalance h)
     @ [[]]"

definition transactionHeaders :: "jsval list" where
  "transactionHeaders =
     [JStr ''Date'', JStr ''Description'', JStr ''Paid Out'', JStr ''Paid In'', JStr ''Balance'']"

definition numberOrNull :: "rat option \<Rightarrow> jsval" where
  "numberOrNull v = (case v of None \<Rightarrow> JNull | Some n \<Rightarrow> JNum n)"

definition dataRow :: "Transaction \<Rightarrow> jsval list" where
  "dataRow t =
     [JStr (case date t of None \<Rightarrow> [] | Some d \<Rightarrow> d),
      JStr (case description t of None \<Rightarrow> [] | Some d \<Rightarrow> d),
      numberOrNull (debit t),
      numberOrNull (credit t),
      numberOrNull (balance t)]"

text \<open>The footer section: the empty row, then one row per field that is present.\<close>

definition footerRows :: "Footer \<Rightarrow> jsval list list" where
  "footerRows f =
     [[]]
     @ numberRow ''Closing Balance:'' (closingBalance f)
     @ numberRow ''Total Debits:'' (totalDebits f)
     @ numberRow ''Total Credits:'' (totalCredits f)
     @ numberRow ''Total Withdrawals:'' (totalWithdrawals f)
     @ numberRow ''Total Deposits:'' (totalDeposits f)
     @ textRow ''Summary:'' (summary f)"

text \<open>
  \<open>formatStructuredDataForExcel\<close>.  The call of \<open>validateTransactionData\<close> at its end only
  writes to the console and does not change the matrix returned; the console is not
  part of the model.
\<close>

definition formatStructuredDataForExcel :: "StructuredPdfDataOutput option \<Rightarrow> jsval list list" where
  "formatStructuredDataForExcel structuredData =
     (case structuredData of
        None \<Rightarrow> noDataMatrix
      | Some sd \<Rightarrow>
          (if transactions sd = [] then noDataMatrix
           else
             (let excelData =
                    (case header sd of None \<Rightarrow> [] | Some h \<Rightarrow> headerRows h)
                    @ [transactionHeaders]
                    @ map dataRow (transactions sd)
              in if length excelData = (case header sd of None \<Rightarrow> 1 | Some h \<Rightarrow> 7)
                 then noDataMatrix
                 else excelData @ (case footer sd of None \<Rightarrow> [] | Some f \<Rightarrow> footerRows f))))"

section \<open>Export: validation, table bounds, cell typing\<close>

text \<open>
  The error texts of \<open>validateDataBeforeExport\<close>: "No data to export", "Row r is not an
  array", "Invalid cell type at row r, column c" (both counted from 1).
\<close>

datatype export_error =
    NoDataToExport
  | RowNotAnArray nat
  | InvalidCellType nat nat

text \<open>
  \<open>cell !== null && typeof cell !== 'string' && typeof cell !== 'number' && cell !== undefined\<close>
  rejects a cell; \<open>cellAllowed\<close> is its negation.
\<close>

fun cellAllowed :: "jsval \<Rightarrow> bool" where
  "cellAllowed JNull = True"
| "cellAllowed (JStr s) = True"
| "cellAllowed (JNum n) = True"
| "cellAllowed JUndefined = True"
| "cellAllowed (JBool b) = False"
| "cellAllowed JObject = False"

fun checkCells :: "nat \<Rightarrow> nat \<Rightarrow> jsval list \<Rightarrow> export_error option" where
  "checkCells rowIndex colIndex [] = None"
| "checkCells rowIndex colIndex (cell # rest) =
     (if \<not> cellAllowed cell then Some (InvalidCellType (rowIndex + 1) (colIndex + 1))
      else checkCells rowIndex (colIndex + 1) rest)"

fun checkRows :: "nat \<Rightarrow> jsrow list \<Rightarrow> export_error option" where
  "checkRows rowIndex [] = None"
| "checkRows rowIndex (NotArray v # rest) = Some (RowNotAnArray (rowIndex + 1))"
| "checkRows rowIndex (Row cs # rest) =
     (case checkCells rowIndex 0 cs of
        Some e \<Rightarrow> Some e
      | None \<Rightarrow> checkRows (rowIndex + 1) rest)"

text \<open>\<open>validateDataBeforeExport\<close>: \<open>None\<close> is \<open>{ isValid: true }\<close>, \<open>Some e\<close> carries the error.\<close>

definition validateDataBeforeExport :: "jsrow list \<Rightarrow> export_error option" where
  "validateDataBeforeExport data =
     (if length data = 0 then Some NoDataToExport else checkRows 0 data)"

record TableBounds =
  startRow :: int
  endRow :: int
  headerRow :: int

text \<open>\<open>String(v)\<close>\<close>

definition toStringJS :: "js_env \<Rightarrow> jsval \<Rightarrow> string" where
  "toStringJS env v = (case v of JStr s \<Rightarrow> s | _ \<Rightarrow> stringOf env v)"

text \<open>\<open>String(row[0] || '').toLowerCase()\<close>; \<open>row[0]\<close> of an empty array is \<open>undefined\<close>.\<close>

definition firstCellLower :: "js_env \<Rightarrow> jsval list \<Rightarrow> string" where
  "firstCellLower env cs =
     (let v = (case cs of [] \<Rightarrow> JUndefined | c # rest \<Rightarrow> c)
      in toLowerCase (toStringJS env (if truthy v then v else JStr [])))"

definition isTransactionHeaderRow :: "js_env \<Rightarrow> jsrow \<Rightarrow> bool" where
  "isTransactionHeaderRow env r =
     (case r of
        Row cs \<Rightarrow> length cs \<ge> 5 \<and> firstCellLower env cs = ''date''
      | NotArray v \<Rightarrow> False)"

text \<open>The first loop: the index of the header row from index \<open>i\<close> on, or -1.\<close>

fun findHeaderRow :: "js_env \<Rightarrow> nat \<Rightarrow> jsrow list \<Rightarrow> int" where
  "findHeaderRow env i [] = -1"
| "findHeaderRow env i (r # rest) =
     (if isTransactionHeaderRow env r then int i else findHeaderRow env (i + 1) rest)"

definition isTableEndRow :: "js_env \<Rightarrow> jsrow \<Rightarrow> bool" where
  "isTableEndRow env r =
     (case r of
        Row cs \<Rightarrow>
          length cs > 0
          \<and> (let firstCell = firstCellLower env cs
             in firstCell = [] \<or> firstCell = ''closing balance'' \<or> firstCell = ''total debits''
                \<or> firstCell = ''total credits'' \<or> firstCell = ''summary'')
      | NotArray v \<Rightarrow> False)"

text \<open>
  The second loop over the rows from index \<open>i\<close> on: \<open>i - 1\<close> at the first end row, the
  initial value of \<open>endRow\<close> when there is none.
\<close>

fun findEndRow :: "js_env \<Rightarrow> nat \<Rightarrow> jsrow list \<Rightarrow> int \<Rightarrow> int" where
  "findEndRow env i [] initial = initial"
| "findEndRow env i (r # rest) initial =
     (if isTableEndRow env r then int i - 1 else findEndRow env (i + 1) rest initial)"

definition findTransactionTableBounds :: "js_env \<Rightarrow> jsrow list \<Rightarrow> TableBounds" where
  "findTransactionTableBounds env data =
     (let h = findHeaderRow env 0 data
      in if h = -1 then
           \<lparr>startRow = 0, endRow = int (length data) - 1, headerRow = 0\<rparr>
         else
           \<lparr>startRow = h,
            endRow = findEndRow env (nat h + 1) (drop (nat h + 1) data) (int (length data) - 1),
            headerRow = h\<rparr>)"


subsection \<open>The worksheet\<close>

text \<open>
  A cell of the worksheet after the typing pass: its value \<open>v\<close> (the value of the
  matrix, or the \<open>Date\<close> built from a date string), its type \<open>t\<close> and its number format
  \<open>z\<close>.  \<open>DateOf s\<close> is the object \<open>new Date(s + 'T00:00:00')\<close>.
\<close>

datatype cell_value = Plain jsval | DateOf string

datatype cell_type = NumberCell | StringCell | DateCell

record SheetCell =
  cellV :: cell_value
  cellT :: cell_type
  cellZ :: "string option"

text \<open>
  \<open>XLSX.utils.aoa_to_sheet(data)\<close> with its default options, as the library documents
  it: the cell at row \<open>r\<close> and column \<open>c\<close> holds \<open>data[r][c]\<close>, and a value that is
  \<open>null\<close> or \<open>undefined\<close> makes no cell.  The type the library gives a new cell is
  overwritten by every branch of the typing pass, so the sheet is kept as the values.
\<close>

definition aoa_to_sheet :: "jsrow list \<Rightarrow> nat \<times> nat \<Rightarrow> jsval option" where
  "aoa_to_sheet data = (\<lambda>(r, c).
     if r < length data then
       (case data ! r of
          Row cs \<Rightarrow>
            (if c < length cs \<and> cs ! c \<noteq> JNull \<and> cs ! c \<noteq> JUndefined then Some (cs ! c)
             else None)
        | NotArray v \<Rightarrow> None)
     else None)"

text \<open>
  \<open>!isNaN(new Date(s + 'T00:00:00').getTime())\<close> for a string that matches the date
  pattern: a day of the calendar is a valid local date-time; any other digits are left to
  the host.
\<close>

definition localMidnightValid :: "js_env \<Rightarrow> string \<Rightarrow> bool" where
  "localMidnightValid env s =
     (case isoDateDay s of
        Some day \<Rightarrow> True
      | None \<Rightarrow> dateParseOther env (s @ ''T00:00:00'') \<noteq> None)"

fun isNumber :: "jsval \<Rightarrow> bool" where
  "isNumber (JNum n) = True"
| "isNumber v = False"

text \<open>The body of the typing loop for the cell at \<open>row\<close>, \<open>col\<close> holding \<open>v\<close>.\<close>

definition typeCell :: "js_env \<Rightarrow> TableBounds \<Rightarrow> nat \<Rightarrow> nat \<Rightarrow> jsval \<Rightarrow> SheetCell" where
  "typeCell env tableBounds row col v =
     (let isInTransactionTable =
            (int row \<ge> startRow tableBounds \<and> int row \<le> endRow tableBounds);
          isHeaderRow = (int row = headerRow tableBounds);
          isNumericColumn = (isInTransactionTable \<and> (col = 2 \<or> col = 3 \<or> col = 4));
          isDateColumn = (isInTransactionTable \<and> col = 0 \<and> \<not> isHeaderRow)
      in if isNumericColumn \<and> \<not> isHeaderRow \<and> isNumber v then
           \<lparr>cellV = Plain v, cellT = NumberCell, cellZ = Some ''#,##0.00''\<rparr>
         else if isDateColumn \<and> (case v of JStr s \<Rightarrow> matchesDatePattern s | _ \<Rightarrow> False) then
           (case v of
              JStr s \<Rightarrow>
                (if localMidnightValid env s then
                   \<lparr>cellV = DateOf s, cellT = DateCell, cellZ = Some ''yyyy-mm-dd''\<rparr>
                 else \<lparr>cellV = Plain v, cellT = StringCell, cellZ = None\<rparr>)
            | _ \<Rightarrow> \<lparr>cellV = Plain v, cellT = StringCell, cellZ = None\<rparr>)
         else if isNumber v then
           \<lparr>cellV = Plain v, cellT = NumberCell, cellZ = Some ''#,##0.00''\<rparr>
         else \<lparr>cellV = Plain v, cellT = StringCell, cellZ = None\<rparr>)"

text \<open>
  The width of column \<open>col\<close>: the inner loop over the rows, then the fixed minimum of the
  five transaction columns.
\<close>

definition columnWidth :: "js_env \<Rightarrow> jsrow list \<Rightarrow> nat \<Rightarrow> nat" where
  "columnWidth env data col =
     (let maxWidth =
            foldl (\<lambda>maxWidth r.
                (case r of
                   Row cs \<Rightarrow>
                     (if col < length cs \<and> cs ! col \<noteq> JUndefined \<and> cs ! col \<noteq> JNull
                      then min (max (length (toStringJS env (cs ! col))) maxWidth + 2) 50
                      else maxWidth)
                 | NotArray v \<Rightarrow> maxWidth))
              10 data
      in if col = 0 then max maxWidth 12
         else if col = 1 then max maxWidth 40
         else if col = 2 then max maxWidth 15
         else if col = 3 then max maxWidth 15
         else if col = 4 then max maxWidth 18
         else maxWidth)"

definition rowLength :: "jsrow \<Rightarrow> nat" where
  "rowLength r = (case r of Row cs \<Rightarrow> length cs | NotArray v \<Rightarrow> 0)"

text \<open>
  The worksheet handed to the writer: the typed cells, the column widths, and the freeze
  pane (\<open>ySplit\<close> and the row and column of \<open>topLeftCell\<close>), set when
  \<open>tableBounds.headerRow >= 0\<close>.
\<close>

record Worksheet =
  sheetCells :: "nat \<times> nat \<Rightarrow> SheetCell option"
  colWidths :: "nat list"
  freezeYSplit :: "int option"
  freezeTopLeft :: "(int \<times> nat) option"

definition buildWorksheet :: "js_env \<Rightarrow> jsrow list \<Rightarrow> Worksheet" where
  "buildWorksheet env data =
     (let worksheet = aoa_to_sheet data;
          tableBounds = findTransactionTableBounds env data;
          maxCols = foldl max 0 (map rowLength data)
      in \<lparr>sheetCells = (\<lambda>(row, col).
              (case worksheet (row, col) of
                 None \<Rightarrow> None
               | Some v \<Rightarrow> Some (typeCell env tableBounds row col v))),
          colWidths = map (columnWidth env data) [0 ..< maxCols],
          freezeYSplit =
            (if headerRow tableBounds \<ge> 0 then Some (headerRow tableBounds + 1) else None),
          freezeTopLeft =
            (if headerRow tableBounds \<ge> 0 then Some (headerRow tableBounds + 1, 0) else None)\<rparr>)"

text \<open>
  What \<open>exportToExcel\<close> does, in order, and how it ends: the error thrown, or the
  worksheet written.
\<close>

datatype export_step =
    LoggedValidationFailure export_error
  | CreatedWorksheet
  | CreatedWorkbook
  | CalledWriteFile string

datatype export_failure =
    InvalidData export_error
  | FailedToExport string

definition exportToExcel ::
  "js_env \<Rightarrow> jsrow list \<Rightarrow> string \<Rightarrow> export_step list \<times> (export_failure + Worksheet)" where
  "exportToExcel env data fileName =
     (case validateDataBeforeExport data of
        Some e \<Rightarrow> ([LoggedValidationFailure e], Inl (InvalidData e))
      | None \<Rightarrow>
          (let worksheet = buildWorksheet env data;
               steps = [CreatedWorksheet, CreatedWorkbook, CalledWriteFile fileName]
           in (case writeFile env fileName of
                 Some m \<Rightarrow> (steps, Inl (FailedToExport m))
               | None \<Rightarrow> (steps, Inr worksheet))))"

section \<open>The structuring flow\<close>







section \<open>Obtaining the raw text: direct extraction or OCR\<close>

text \<open>
  Thrown errors: the two classes the pipeline tests for, and any other \<open>Error\<close> with its
  \<open>name\<close> and \<open>message\<close>.
\<close>

datatype jserror =
    ProcessingCancelledError string
  | NetworkError string
  | OtherError string string

fun errorName :: "jserror \<Rightarrow> string" where
  "errorName (ProcessingCancelledError m) = ''ProcessingCancelledError''"
| "errorName (NetworkError m) = ''NetworkError''"
| "errorName (OtherError n m) = n"

fun errorMessage :: "jserror \<Rightarrow> string" where
  "errorMessage (ProcessingCancelledError m) = m"
| "errorMessage (NetworkError m) = m"
| "errorMessage (OtherError n m) = m"

fun isProcessingCancelledError :: "jserror \<Rightarrow> bool" where
  "isProcessingCancelledError (ProcessingCancelledError m) = True"
| "isProcessingCancelledError e = False"

text \<open>
  What the host does for one page of the OCR run: whether the signal is aborted at the
  head of the loop, the outcome of loading and rendering the page (the image URI, or the
  error), whether the signal is aborted when the callback starts, and the outcome of the
  recognition call (the error thrown, or \<open>result?.extractedText\<close>).
\<close>

record PageRun =
  abortedBeforePage :: bool
  renderPage :: "jserror + string"
  abortedInCallback :: bool
  recognise :: "jserror + string option"

text \<open>
  One OCR run: the error of \<open>getDocument\<close> if it fails, the pages in order, and whether
  the signal is aborted when the converter catches an error.
\<close>

record OcrRun =
  openDocument :: "jserror option"
  pageRuns :: "PageRun list"
  abortedWhenCaught :: bool

definition pageBreak :: string where
  "pageBreak = [CHR 0x0A, CHR 0x0A]"

text \<open>
  The callback of \<open>handleFileSelect\<close>, on the text accumulated so far
  (\<open>ocrTextFromAllPages\<close>).
\<close>

definition onPageProcessed :: "PageRun \<Rightarrow> string \<Rightarrow> jserror + string" where
  "onPageProcessed p ocrTextFromAllPages =
     (if abortedInCallback p then Inl (ProcessingCancelledError ''Processing was cancelled'')
      else
        (case recognise p of
           Inr None \<Rightarrow> Inr ocrTextFromAllPages
         | Inr (Some extractedText) \<Rightarrow>
             (if extractedText \<noteq> [] then Inr (ocrTextFromAllPages @ extractedText @ pageBreak)
              else Inr ocrTextFromAllPages)
         | Inl e \<Rightarrow>
             (if isProcessingCancelledError e \<or> errorName e = ''AbortError'' then Inl e
              else Inr ocrTextFromAllPages)))"

text \<open>The loop of \<open>convertPdfPagesToImageUrisIncremental\<close> over the pages.\<close>

fun pageLoop ::
  "(PageRun \<Rightarrow> 's \<Rightarrow> jserror + 's) \<Rightarrow> PageRun list \<Rightarrow> 's \<Rightarrow> jserror + 's" where
  "pageLoop callback [] st = Inr st"
| "pageLoop callback (p # rest) st =
     (if abortedBeforePage p then
        Inl (OtherError ''Error'' ''PDF to image conversion was cancelled'')
      else
        (case renderPage p of
           Inl e \<Rightarrow> Inl e
         | Inr imageUri \<Rightarrow>
             (case callback p st of
                Inl e \<Rightarrow> Inl e
              | Inr st' \<Rightarrow> pageLoop callback rest st')))"

text \<open>The \<open>catch\<close> clause of the converter: the error it throws in place of \<open>e\<close>.\<close>

definition conversionError :: "bool \<Rightarrow> jserror \<Rightarrow> jserror" where
  "conversionError aborted e =
     (if aborted \<or> includesStr (errorMessage e) ''cancelled'' then
        ProcessingCancelledError ''PDF to image conversion was cancelled''
      else if includesStr (errorMessage e) ''network'' \<or> includesStr (errorMessage e) ''fetch'' then
        NetworkError ''Network error while converting PDF pages to images. Please check your connection and try again.''
      else
        OtherError ''Error'' ''Failed to convert PDF pages to images. Please ensure the file is a valid PDF.'')"

text \<open>
  \<open>convertPdfPagesToImageUrisIncremental\<close>; the release of the document in its
  \<open>finally\<close> clause changes no result and is not modelled.
\<close>

definition convertPdfPagesToImageUrisIncremental ::
  "OcrRun \<Rightarrow> (PageRun \<Rightarrow> 's \<Rightarrow> jserror + 's) \<Rightarrow> 's \<Rightarrow> jserror + 's" where
  "convertPdfPagesToImageUrisIncremental run callback st =
     (case (case openDocument run of
              Some e \<Rightarrow> Inl e
            | None \<Rightarrow> pageLoop callback (pageRuns run) st) of
        Inl e \<Rightarrow> Inl (conversionError (abortedWhenCaught run) e)
      | Inr st' \<Rightarrow> Inr st')"

definition MIN_TEXT_LENGTH_FOR_TEXT_PDF :: nat where
  "MIN_TEXT_LENGTH_FOR_TEXT_PDF = 100"

text \<open>The \<open>else\<close> branch of \<open>handleFileSelect\<close>: the OCR run and the test of its text.\<close>

definition ocrFallback :: "OcrRun \<Rightarrow> jserror + string" where
  "ocrFallback run =
     (case convertPdfPagesToImageUrisIncremental run onPageProcessed [] of
        Inl e \<Rightarrow> Inl e
      | Inr ocrTextFromAllPages \<Rightarrow>
          (if ocrTextFromAllPages = [] then
             Inl (OtherError ''Error'' ''OCR failed to extract any text from the document.'')
           else Inr ocrTextFromAllPages))"

text \<open>
  The part of \<open>handleFileSelect\<close> that yields \<open>rawTextOutput\<close> from the text of the direct
  extraction: \<open>directText && directText.length > MIN_TEXT_LENGTH_FOR_TEXT_PDF\<close>.
\<close>

definition usesDirectText :: "string \<Rightarrow> bool" where
  "usesDirectText directText =
     (directText \<noteq> [] \<and> length directText > MIN_TEXT_LENGTH_FOR_TEXT_PDF)"

definition rawTextOutput :: "string \<Rightarrow> OcrRun \<Rightarrow> jserror + string" where
  "rawTextOutput directText run =
     (if usesDirectText directText then Inr directText else ocrFallback run)"


section \<open>A sample host\<close>

text \<open>
  A host for the worked examples: it takes no date string outside the form YYYY-MM-DD
  (the standard allows that), prints a number in decimal notation, and its file writer
  succeeds.
\<close>

definition digitChar :: "nat \<Rightarrow> char" where
  "digitChar d = char_of (48 + d)"

fun natDigits :: "nat \<Rightarrow> nat \<Rightarrow> string" where
  "natDigits 0 n = []"
| "natDigits (Suc fuel) n =
     (if n < 10 then [digitChar n] else natDigits fuel (n div 10) @ [digitChar (n mod 10)])"

fun fractionDigits :: "nat \<Rightarrow> rat \<Rightarrow> string" where
  "fractionDigits 0 r = []"
| "fractionDigits (Suc fuel) r =
     (if r = 0 then []
      else (let d = \<lfloor>10 * r\<rfloor> in digitChar (nat d) # fractionDigits fuel (10 * r - of_int d)))"

definition showNumber :: "rat \<Rightarrow> string" where
  "showNumber r =
     (let a = \<bar>r\<bar>; i = nat \<lfloor>a\<rfloor>; f = a - of_nat i
      in (if r < 0 then ''-'' else [])
         @ natDigits (Suc i) i
         @ (if f = 0 then [] else ''.'' @ fractionDigits 17 f))"

fun sampleStringOf :: "jsval \<Rightarrow> string" where
  "sampleStringOf JUndefined = ''undefined''"
| "sampleStringOf JNull = ''null''"
| "sampleStringOf (JBool b) = (if b then ''true'' else ''false'')"
| "sampleStringOf (JNum n) = showNumber n"
| "sampleStringOf (JStr s) = s"
| "sampleStringOf JObject = ''[object Object]''"

definition sampleHost :: js_env where
  "sampleHost =
     \<lparr>dateParseOther = (\<lambda>s. None), stringOf = sampleStringOf, writeFile = (\<lambda>fileName. None)\<rparr>"

section \<open>The statements of the specification, as it words them\<close>

text \<open>
  Each definition here follows the wording of the specification, not the code; the
  theorems below compare the two.
\<close>

text \<open>"has a non-empty date and a non-empty description"\<close>

definition spec_hasNonEmpty :: "string option \<Rightarrow> bool" where
  "spec_hasNonEmpty f = (case f of None \<Rightarrow> False | Some s \<Rightarrow> s \<noteq> [])"

definition spec_allComplete :: "Transaction list \<Rightarrow> bool" where
  "spec_allComplete txs =
     list_all (\<lambda>t. spec_hasNonEmpty (date t) \<and> spec_hasNonEmpty (description t)) txs"

text \<open>"a non-empty (after trimming)" optional text\<close>

definition spec_nonBlank :: "string option \<Rightarrow> bool" where
  "spec_nonBlank f = (case f of None \<Rightarrow> False | Some s \<Rightarrow> trim s \<noteq> [])"

text \<open>
  "two dates differ by more than 30 days": both are valid and their time values are more
  than 30 days of 86400000 milliseconds apart.
\<close>

definition spec_moreThan30Days :: "js_env \<Rightarrow> string \<Rightarrow> string \<Rightarrow> bool" where
  "spec_moreThan30Days env a b =
     (case newDate env a of
        None \<Rightarrow> False
      | Some p \<Rightarrow>
          (case newDate env b of
             None \<Rightarrow> False
           | Some c \<Rightarrow> \<bar>c - p\<bar> > 30 * 86400000))"

text \<open>"the non-empty date strings", in the order of the transactions\<close>

definition spec_dates :: "Transaction list \<Rightarrow> string list" where
  "spec_dates txs = filter (\<lambda>d. trim d \<noteq> []) (map the (filter (\<lambda>d. d \<noteq> None) (map date txs)))"

text \<open>The messages the claims single out, by their leading text.\<close>

fun isDateGapIssue :: "message \<Rightarrow> bool" where
  "isDateGapIssue (PotentialMissingTransactions a b) = True"
| "isDateGapIssue m = False"







text \<open>"falls back to the OCR path if and only if the length is strictly less than the threshold"\<close>

definition spec_fallsBackToOcr :: "string \<Rightarrow> bool" where
  "spec_fallsBackToOcr directText = (length directText < MIN_TEXT_LENGTH_FOR_TEXT_PDF)"

text \<open>The index of the first element that satisfies \<open>P\<close>.\<close>

definition firstIndex :: "('a \<Rightarrow> bool) \<Rightarrow> 'a list \<Rightarrow> nat option" where
  "firstIndex P xs =
     (let n = length (takeWhile (\<lambda>x. \<not> P x) xs) in if n < length xs then Some n else None)"

text \<open>"the first row whose first cell case-insensitively equals date"\<close>

definition spec_isHeaderRow :: "js_env \<Rightarrow> jsrow \<Rightarrow> bool" where
  "spec_isHeaderRow env r =
     (case r of Row cs \<Rightarrow> firstCellLower env cs = ''date'' | NotArray v \<Rightarrow> False)"

text \<open>"a row whose first cell is empty or matches the footer-label set"\<close>

definition spec_isEndRow :: "js_env \<Rightarrow> jsrow \<Rightarrow> bool" where
  "spec_isEndRow env r =
     (case r of
        Row cs \<Rightarrow>
          firstCellLower env cs
            \<in> {[], ''closing balance'', ''total debits'', ''total credits'', ''summary''}
      | NotArray v \<Rightarrow> False)"

text \<open>
  The bounds for a header predicate and an end predicate: the first header row, the row
  before the first end row after it (the last row when there is none), and the whole
  grid with the first row as header when no row is a header.
\<close>

definition boundsBy :: "(jsrow \<Rightarrow> bool) \<Rightarrow> (jsrow \<Rightarrow> bool) \<Rightarrow> jsrow list \<Rightarrow> TableBounds" where
  "boundsBy isHeader isEnd data =
     (case firstIndex isHeader data of
        None \<Rightarrow> \<lparr>startRow = 0, endRow = int (length data) - 1, headerRow = 0\<rparr>
      | Some h \<Rightarrow>
          \<lparr>startRow = int h,
           endRow =
             (case firstIndex isEnd (drop (Suc h) data) of
                None \<Rightarrow> int (length data) - 1
              | Some k \<Rightarrow> int h + int k),
           headerRow = int h\<rparr>)"

definition spec_tableBounds :: "js_env \<Rightarrow> jsrow list \<Rightarrow> TableBounds" where
  "spec_tableBounds env data = boundsBy (spec_isHeaderRow env) (spec_isEndRow env) data"



text \<open>
  "types the cell at column 0, row 4 as a date cell, types columns 2-4 as numeric with a
  two-decimal format, and marks row index 4 as the frozen row"
\<close>

definition isDateCell :: "SheetCell option \<Rightarrow> bool" where
  "isDateCell c = (case c of None \<Rightarrow> False | Some x \<Rightarrow> cellT x = DateCell)"

definition isTwoDecimalNumber :: "SheetCell option \<Rightarrow> bool" where
  "isTwoDecimalNumber c =
     (case c of None \<Rightarrow> False | Some x \<Rightarrow> cellT x = NumberCell \<and> cellZ x = Some ''#,##0.00'')"

definition spec_typedAtRow :: "Worksheet \<Rightarrow> nat \<Rightarrow> bool" where
  "spec_typedAtRow ws row =
     (isDateCell (sheetCells ws (row, 0))
      \<and> isTwoDecimalNumber (sheetCells ws (row, 2))
      \<and> isTwoDecimalNumber (sheetCells ws (row, 3))
      \<and> isTwoDecimalNumber (sheetCells ws (row, 4))
      \<and> freezeYSplit ws = Some (int row)
      \<and> freezeTopLeft ws = Some (int row, 0))"


text \<open>
  "a row that is not an array", "a cell whose value is neither a string, a number, null
  nor undefined"
\<close>

definition spec_notArray :: "jsrow \<Rightarrow> bool" where
  "spec_notArray r = (case r of Row cs \<Rightarrow> False | NotArray v \<Rightarrow> True)"

definition spec_badCell :: "jsval \<Rightarrow> bool" where
  "spec_badCell c =
     ((case c of JStr s \<Rightarrow> False | _ \<Rightarrow> True) \<and> (case c of JNum n \<Rightarrow> False | _ \<Rightarrow> True)
      \<and> c \<noteq> JNull \<and> c \<noteq> JUndefined)"

definition spec_hasBadCell :: "jsrow \<Rightarrow> bool" where
  "spec_hasBadCell r = (case r of Row cs \<Rightarrow> list_ex spec_badCell cs | NotArray v \<Rightarrow> False)"

text \<open>The text a page contributes to the OCR result.\<close>

definition pageText :: "PageRun \<Rightarrow> string" where
  "pageText p =
     (case recognise p of
        Inr (Some extractedText) \<Rightarrow> (if extractedText \<noteq> [] then extractedText @ pageBreak else [])
      | _ \<Rightarrow> [])"

text \<open>
  A page on which the signal is not aborted, the render succeeds, and the recognition
  call returns or fails with an error that is neither a cancellation nor an abort.
\<close>

definition pageUndisturbed :: "PageRun \<Rightarrow> bool" where
  "pageUndisturbed p =
     (\<not> abortedBeforePage p \<and> \<not> abortedInCallback p
      \<and> (case renderPage p of Inl e \<Rightarrow> False | Inr imageUri \<Rightarrow> True)
      \<and> (case recognise p of
           Inl e \<Rightarrow> \<not> isProcessingCancelledError e \<and> errorName e \<noteq> ''AbortError''
         | Inr t \<Rightarrow> True))"

section \<open>Worked inputs\<close>

definition abcHeader :: Header where
  "abcHeader =
     \<lparr>bankName = Some ''ABC'', accountNumber = None, accountHolderName = None,
      statementPeriod = None, statementDate = None, openingBalance = None\<rparr>"

definition petrol :: Transaction where
  "petrol =
     \<lparr>date = Some ''2024-02-03'', description = Some ''X'', debit = Some 24.5,
      credit = None, balance = Some 39975.5\<rparr>"

definition abcDocument :: "Transaction list \<Rightarrow> StructuredPdfDataOutput" where
  "abcDocument txs = \<lparr>header = Some abcHeader, transactions = txs, footer = None\<rparr>"

definition abcMatrix :: "jsrow list" where
  "abcMatrix = map Row (formatStructuredDataForExcel (Some (abcDocument [petrol])))"


definition onlyTotalDebits :: "rat \<Rightarrow> Footer" where
  "onlyTotalDebits v =
     \<lparr>closingBalance = None, totalDebits = Some v, totalCredits = None,
      totalWithdrawals = None, totalDeposits = None, summary = None\<rparr>"

definition abcStatementWithFooter :: StructuredPdfDataOutput where
  "abcStatementWithFooter =
     \<lparr>header = Some abcHeader, transactions = [petrol], footer = Some (onlyTotalDebits 24.5)\<rparr>"



definition datedTransaction :: "string \<Rightarrow> Transaction" where
  "datedTransaction d =
     \<lparr>date = Some d, description = Some ''X'', debit = None, credit = None, balance = None\<rparr>"

definition scannedPage :: "jserror + string option \<Rightarrow> PageRun" where
  "scannedPage outcome =
     \<lparr>abortedBeforePage = False, renderPage = Inr ''data:image/jpeg;base64,'',
      abortedInCallback = False, recognise = outcome\<rparr>"

definition quotaError :: jserror where
  "quotaError = OtherError ''Error'' ''quota exceeded''"

definition ocrRunOf :: "PageRun list \<Rightarrow> OcrRun" where
  "ocrRunOf ps = \<lparr>openDocument = None, pageRuns = ps, abortedWhenCaught = False\<rparr>"


section \<open>Properties of the validation\<close>

lemma fieldMissing_iff: "fieldMissing f \<longleftrightarrow> \<not> spec_nonBlank f"
  by (auto simp: fieldMissing_def spec_nonBlank_def trim_def split: option.splits)

lemma daysDiffExceeds_iff: "daysDiffExceeds env a b \<longleftrightarrow> spec_moreThan30Days env a b"
proof -
  have "\<bar>(of_int (c - p) :: rat) / (1000 * 60 * 60 * 24)\<bar> > 30 \<longleftrightarrow> \<bar>c - p\<bar> > 30 * 86400000"
    for c p :: int
  proof -
    have "\<bar>(of_int (c - p) :: rat) / (1000 * 60 * 60 * 24)\<bar> = of_int \<bar>c - p\<bar> / 86400000"
      by simp
    also have "\<dots> > 30 \<longleftrightarrow> (of_int \<bar>c - p\<bar> :: rat) > 30 * 86400000"
      by (simp add: pos_less_divide_eq)
    also have "\<dots> \<longleftrightarrow> \<bar>c - p\<bar> > 30 * 86400000"
      by linarith
    finally show ?thesis .
  qed
  then show ?thesis
    by (simp add: daysDiffExceeds_def spec_moreThan30Days_def split: option.splits)
qed

lemma sortedDates_eq: "sortedDates txs = sort (spec_dates txs)"
proof -
  have "concat (map (\<lambda>t. case date t of None \<Rightarrow> [] | Some d \<Rightarrow> [d]) txs)
        = map the (filter (\<lambda>d. d \<noteq> None) (map date txs))"
    by (induction txs) (auto split: option.splits)
  then show ?thesis by (simp add: sortedDates_def spec_dates_def)
qed

lemma required_issues_empty:
  "concat (map (\<lambda>(index, t). requiredFieldIssues index t) (enumerate n txs)) = []
   \<longleftrightarrow> (\<forall>t \<in> set txs. \<not> fieldMissing (date t) \<and> \<not> fieldMissing (description t))"
  by (induction txs arbitrary: n) (auto simp: requiredFieldIssues_def)

lemma date_gaps_empty:
  "dateGapIssues env ds = []
   \<longleftrightarrow> (\<forall>i. Suc i < length ds \<longrightarrow> \<not> daysDiffExceeds env (ds ! i) (ds ! Suc i))"
proof (induction env ds rule: dateGapIssues.induct)
  case (1 env d0 d1 rest)
  show ?case
  proof
    assume a: "dateGapIssues env (d0 # d1 # rest) = []"
    then have h0: "\<not> daysDiffExceeds env d0 d1" and h1: "dateGapIssues env (d1 # rest) = []"
      by (auto split: if_splits)
    show "\<forall>i. Suc i < length (d0 # d1 # rest) \<longrightarrow>
          \<not> daysDiffExceeds env ((d0 # d1 # rest) ! i) ((d0 # d1 # rest) ! Suc i)"
    proof (intro allI impI)
      fix i assume "Suc i < length (d0 # d1 # rest)"
      then show "\<not> daysDiffExceeds env ((d0 # d1 # rest) ! i) ((d0 # d1 # rest) ! Suc i)"
        using h0 h1 "1.IH" by (cases i) auto
    qed
  next
    assume a: "\<forall>i. Suc i < length (d0 # d1 # rest) \<longrightarrow>
          \<not> daysDiffExceeds env ((d0 # d1 # rest) ! i) ((d0 # d1 # rest) ! Suc i)"
    from a[rule_format, of 0] have h0: "\<not> daysDiffExceeds env d0 d1" by simp
    have "\<forall>i. Suc i < length (d1 # rest) \<longrightarrow>
          \<not> daysDiffExceeds env ((d1 # rest) ! i) ((d1 # rest) ! Suc i)"
    proof (intro allI impI)
      fix i assume "Suc i < length (d1 # rest)"
      then show "\<not> daysDiffExceeds env ((d1 # rest) ! i) ((d1 # rest) ! Suc i)"
        using a[rule_format, of "Suc i"] by simp
    qed
    then have "dateGapIssues env (d1 # rest) = []" using "1.IH" by simp
    with h0 show "dateGapIssues env (d0 # d1 # rest) = []" by simp
  qed
qed simp_all

lemma isValid_code:
  "isValid (validateTransactionData env txs ftr) \<longleftrightarrow>
     txs \<noteq> []
     \<and> concat (map (\<lambda>(index, t). requiredFieldIssues index t) (enumerate 0 txs)) = []
     \<and> dateGapIssues env (sortedDates txs) = []"
  by (simp add: validateTransactionData_def Let_def del: concat_eq_Nil_conv)

text \<open>
  Claim C1, as the code has it.  \<open>validateTransactionData\<close> returns \<open>isValid = true\<close> if
  and only if the list is not empty, every transaction has a date and a description that
  are non-empty after trimming, and no two neighbours in the sorted list of the non-empty
  dates are more than 30 days apart.  The footer affects neither \<open>isValid\<close> nor the
  issues, and the accuracy warnings play no part in \<open>isValid\<close>.
\<close>

theorem validate_isValid_iff:
  "(isValid (validateTransactionData env txs ftr) \<longleftrightarrow>
      txs \<noteq> []
      \<and> (\<forall>t \<in> set txs. spec_nonBlank (date t) \<and> spec_nonBlank (description t))
      \<and> (\<forall>i. Suc i < length (spec_dates txs) \<longrightarrow>
             \<not> spec_moreThan30Days env (sort (spec_dates txs) ! i) (sort (spec_dates txs) ! Suc i)))
   \<and> isValid (validateTransactionData env txs ftr) = isValid (validateTransactionData env txs None)
   \<and> issues (validateTransactionData env txs ftr) = issues (validateTransactionData env txs None)"
proof -
  have a: "isValid (validateTransactionData env txs f) \<longleftrightarrow>
      txs \<noteq> []
      \<and> (\<forall>t \<in> set txs. spec_nonBlank (date t) \<and> spec_nonBlank (description t))
      \<and> (\<forall>i. Suc i < length (spec_dates txs) \<longrightarrow>
             \<not> spec_moreThan30Days env (sort (spec_dates txs) ! i) (sort (spec_dates txs) ! Suc i))"
    for f
    by (simp only: isValid_code required_issues_empty date_gaps_empty fieldMissing_iff
        daysDiffExceeds_iff sortedDates_eq length_sort not_not)
  have b: "issues (validateTransactionData env txs ftr) = issues (validateTransactionData env txs None)"
    by (simp add: validateTransactionData_def Let_def)
  show ?thesis using a[of ftr] a[of None] b by blast
qed

text \<open>
  A statement with one complete transaction is valid, whatever its footer says: here the
  footer total is off by 74.50.
\<close>

theorem validate_isValid_iff_witness:
  "isValid (validateTransactionData sampleHost [petrol] (Some (onlyTotalDebits 99)))"
proof -
  have d: "spec_dates [petrol] = [''2024-02-03'']"
    by (simp add: spec_dates_def petrol_def trim_def isWhiteSpace_def)
  have n: "spec_nonBlank (date petrol) \<and> spec_nonBlank (description petrol)"
    by (simp add: spec_nonBlank_def petrol_def trim_def isWhiteSpace_def)
  show ?thesis
    using validate_isValid_iff[of sampleHost "[petrol]" "Some (onlyTotalDebits 99)"] d n
    by simp
qed

text \<open>
  The claim as the specification words it fails on three inputs: the empty list (every
  transaction of it is complete, and it is not valid); two complete transactions dated
  2024-01-01 and 2024-03-01 (60 days apart, so a date-gap issue makes the result
  invalid); and a transaction whose date is one space (non-empty, and counted missing).
\<close>

theorem validate_isValid_counterexample:
  "\<not> (isValid (validateTransactionData sampleHost [] None) \<longleftrightarrow> spec_allComplete [])
   \<and> \<not> (isValid (validateTransactionData sampleHost
            [datedTransaction ''2024-01-01'', datedTransaction ''2024-03-01''] None)
          \<longleftrightarrow> spec_allComplete [datedTransaction ''2024-01-01'', datedTransaction ''2024-03-01''])
   \<and> \<not> (isValid (validateTransactionData sampleHost [datedTransaction '' ''] None)
          \<longleftrightarrow> spec_allComplete [datedTransaction '' ''])"
  by code_simp

subsection \<open>Date gaps and the order of the transactions\<close>

lemma spec_dates_mset:
  assumes "mset txs = mset txs'"
  shows "mset (spec_dates txs) = mset (spec_dates txs')"
proof -
  have "mset (spec_dates xs)
        = filter_mset (\<lambda>d. trim d \<noteq> [])
            (image_mset the (filter_mset (\<lambda>d. d \<noteq> None) (image_mset date (mset xs))))"
    for xs
    unfolding spec_dates_def by (simp only: mset_filter mset_map)
  then show ?thesis using assms by simp
qed

lemma sort_spec_dates_mset:
  assumes "mset txs = mset txs'"
  shows "sort (spec_dates txs) = sort (spec_dates txs')"
proof (rule properties_for_sort)
  show "mset (sort (spec_dates txs')) = mset (spec_dates txs)"
    using spec_dates_mset[OF assms] by simp
  show "sorted (sort (spec_dates txs'))" by simp
qed

lemma filter_gap_required:
  "filter isDateGapIssue (concat (map (\<lambda>(index, t). requiredFieldIssues index t) (enumerate n txs))) = []"
  by (induction txs arbitrary: n) (auto simp: requiredFieldIssues_def)

lemma filter_gap_gaps: "filter isDateGapIssue (dateGapIssues env ds) = dateGapIssues env ds"
  by (induction env ds rule: dateGapIssues.induct) auto

lemma gap_issues_of_result:
  "filter isDateGapIssue (issues (validateTransactionData env txs ftr))
   = dateGapIssues env (sort (spec_dates txs))"
proof (cases "txs = []")
  case True
  then show ?thesis by (simp add: validateTransactionData_def spec_dates_def)
next
  case False
  then show ?thesis
    by (simp add: validateTransactionData_def Let_def filter_gap_required filter_gap_gaps
        sortedDates_eq)
qed

text \<open>
  Claim C10.  The date-gap issues of \<open>validateTransactionData\<close> do not depend on the
  order of the transactions: two lists that are permutations of each other give the same
  date-gap issues, as a list and so as a multiset, whatever the footers.
\<close>

theorem date_gap_issues_permutation_invariant:
  assumes "mset txs = mset txs'"
  shows "filter isDateGapIssue (issues (validateTransactionData env txs ftr))
         = filter isDateGapIssue (issues (validateTransactionData env txs' ftr'))
       \<and> mset (filter isDateGapIssue (issues (validateTransactionData env txs ftr)))
         = mset (filter isDateGapIssue (issues (validateTransactionData env txs' ftr')))"
  by (simp only: gap_issues_of_result sort_spec_dates_mset[OF assms] simp_thms)

text \<open>
  Two transactions 60 days apart, in either order, give the one issue between the earlier
  and the later date.
\<close>

theorem date_gap_issues_permutation_invariant_witness:
  "filter isDateGapIssue (issues (validateTransactionData sampleHost
       [datedTransaction ''2024-03-01'', datedTransaction ''2024-01-01''] None))
   = filter isDateGapIssue (issues (validateTransactionData sampleHost
       [datedTransaction ''2024-01-01'', datedTransaction ''2024-03-01''] None))
   \<and> filter isDateGapIssue (issues (validateTransactionData sampleHost
       [datedTransaction ''2024-01-01'', datedTransaction ''2024-03-01''] None))
     = [PotentialMissingTransactions ''2024-01-01'' ''2024-03-01'']"
proof -
  have p: "mset [datedTransaction ''2024-03-01'', datedTransaction ''2024-01-01'']
         = mset [datedTransaction ''2024-01-01'', datedTransaction ''2024-03-01'']"
    by (simp add: add.commute)
  have v: "filter isDateGapIssue (issues (validateTransactionData sampleHost
       [datedTransaction ''2024-01-01'', datedTransaction ''2024-03-01''] None))
     = [PotentialMissingTransactions ''2024-01-01'' ''2024-03-01'']"
    by code_simp
  show ?thesis
    using date_gap_issues_permutation_invariant[OF p, of sampleHost None None] v by simp
qed

subsection \<open>Footer totals\<close>



text \<open>
  The rounding on known values: 0.1 is not a double, an odd integer above \<open>2^53\<close> goes
  to its even neighbour, and 24.5 is a double.
\<close>

lemma toDouble_samples:
  "toDouble (1 / 10) = Finite (3602879701896397 / 36028797018963968)"
  "toDouble 9007199254740993 = Finite 9007199254740992"
  "toDouble (49 / 2) = Finite (49 / 2)"
  by code_simp+

lemma tolerance_positive: "0 < tolerance"
  by (simp add: tolerance_def)



























section \<open>Properties of the formatter\<close>

lemma format_no_transactions:
  "formatStructuredDataForExcel None = noDataMatrix"
  "transactions sd = [] \<Longrightarrow> formatStructuredDataForExcel (Some sd) = noDataMatrix"
  by (simp_all add: formatStructuredDataForExcel_def)

lemma format_without_header:
  assumes "transactions sd \<noteq> []" and "header sd = None"
  shows "formatStructuredDataForExcel (Some sd)
         = [transactionHeaders] @ map dataRow (transactions sd)
           @ (case footer sd of None \<Rightarrow> [] | Some f \<Rightarrow> footerRows f)"
  using assms by (simp add: formatStructuredDataForExcel_def Let_def)

lemma format_with_header:
  assumes "transactions sd \<noteq> []" and "header sd = Some h"
    and "length (headerRows h) + length (transactions sd) \<noteq> 6"
  shows "formatStructuredDataForExcel (Some sd)
         = headerRows h @ [transactionHeaders] @ map dataRow (transactions sd)
           @ (case footer sd of None \<Rightarrow> [] | Some f \<Rightarrow> footerRows f)"
  using assms by (simp add: formatStructuredDataForExcel_def Let_def)

lemma format_with_header_six:
  assumes "header sd = Some h"
    and "length (headerRows h) + length (transactions sd) = 6"
  shows "formatStructuredDataForExcel (Some sd) = noDataMatrix"
  using assms by (simp add: formatStructuredDataForExcel_def Let_def)

text \<open>
  Claim C2 says that a document with at least one transaction never formats to the
  "no data" matrix.  The test \<open>excelData.length === (header ? 7 : 1)\<close>, meant for a table
  with only its headers, also holds when header rows and transactions together make
  seven rows: the document with the header \<open>{bankName: "ABC"}\<close> and four transactions has
  the rows "Bank Name:", the empty row, the table header and four transaction rows, and
  the formatter returns the "no data" matrix for it.
\<close>

theorem format_four_transactions_returns_no_data:
  "formatStructuredDataForExcel (Some (abcDocument [petrol, petrol, petrol, petrol])) = noDataMatrix
   \<and> length (transactions (abcDocument [petrol, petrol, petrol, petrol])) = 4"
  by (simp add: formatStructuredDataForExcel_def abcDocument_def abcHeader_def headerRows_def
      textRow_def numberRow_def Let_def)

section \<open>Properties of the export\<close>

lemma spec_badCell_iff: "spec_badCell c \<longleftrightarrow> \<not> cellAllowed c"
  by (cases c) (simp_all add: spec_badCell_def)

lemma checkCells_None:
  "checkCells r c cs = None \<longleftrightarrow> (\<forall>x \<in> set cs. cellAllowed x)"
  by (induction cs arbitrary: c) auto

lemma checkRows_None:
  "checkRows i data = None \<longleftrightarrow> (\<forall>r \<in> set data. \<not> spec_notArray r \<and> \<not> spec_hasBadCell r)"
proof (induction i data rule: checkRows.induct)
  case (1 rowIndex)
  then show ?case by simp
next
  case (2 rowIndex v rest)
  then show ?case by (simp add: spec_notArray_def)
next
  case (3 rowIndex cs rest)
  show ?case
  proof (cases "checkCells rowIndex 0 cs")
    case None
    then have "\<forall>x \<in> set cs. cellAllowed x" by (simp add: checkCells_None)
    then have "\<not> spec_hasBadCell (Row cs)"
      by (simp add: spec_hasBadCell_def list_ex_iff spec_badCell_iff)
    with None 3 show ?thesis by (simp add: spec_notArray_def)
  next
    case (Some e)
    then have "\<not> (\<forall>x \<in> set cs. cellAllowed x)"
      using checkCells_None[of rowIndex 0 cs] by simp
    then have "spec_hasBadCell (Row cs)"
      by (simp add: spec_hasBadCell_def list_ex_iff spec_badCell_iff)
    with Some show ?thesis by simp
  qed
qed

lemma validate_export_None:
  "validateDataBeforeExport data = None
   \<longleftrightarrow> data \<noteq> [] \<and> (\<forall>r \<in> set data. \<not> spec_notArray r \<and> \<not> spec_hasBadCell r)"
  by (simp add: validateDataBeforeExport_def checkRows_None)

text \<open>
  Claim C9.  For a matrix that is empty, has a row that is not an array, or has a cell
  that is neither a string, a number, \<open>null\<close> nor \<open>undefined\<close>, \<open>exportToExcel\<close> logs the
  validation error and throws it, and does nothing else: no worksheet, no workbook, no
  call of the file writer.
\<close>

theorem export_rejects_invalid_data:
  assumes "data = [] \<or> list_ex spec_notArray data \<or> list_ex spec_hasBadCell data"
  shows "\<exists>e. exportToExcel env data fileName = ([LoggedValidationFailure e], Inl (InvalidData e))"
proof -
  from assms have "validateDataBeforeExport data \<noteq> None"
    by (auto simp: validate_export_None list_ex_iff)
  then obtain e where "validateDataBeforeExport data = Some e" by auto
  then show ?thesis by (simp add: exportToExcel_def)
qed

text \<open>
  The empty matrix, a matrix whose second row is a string, and a matrix with a boolean
  in row 2, column 2.
\<close>

theorem export_rejects_invalid_data_witness:
  "exportToExcel sampleHost [] ''out.xlsx''
     = ([LoggedValidationFailure NoDataToExport], Inl (InvalidData NoDataToExport))
   \<and> exportToExcel sampleHost [Row [JStr ''a''], NotArray (JStr ''b'')] ''out.xlsx''
     = ([LoggedValidationFailure (RowNotAnArray 2)], Inl (InvalidData (RowNotAnArray 2)))
   \<and> exportToExcel sampleHost [Row [JStr ''a'', JNum 1], Row [JNull, JBool True]] ''out.xlsx''
     = ([LoggedValidationFailure (InvalidCellType 2 2)], Inl (InvalidData (InvalidCellType 2 2)))"
proof -
  have a: "\<exists>e. exportToExcel sampleHost [] ''out.xlsx''
            = ([LoggedValidationFailure e], Inl (InvalidData e))"
    by (rule export_rejects_invalid_data) simp
  have b: "\<exists>e. exportToExcel sampleHost [Row [JStr ''a''], NotArray (JStr ''b'')] ''out.xlsx''
            = ([LoggedValidationFailure e], Inl (InvalidData e))"
    by (rule export_rejects_invalid_data) (simp add: spec_notArray_def)
  have c: "\<exists>e. exportToExcel sampleHost [Row [JStr ''a'', JNum 1], Row [JNull, JBool True]] ''out.xlsx''
            = ([LoggedValidationFailure e], Inl (InvalidData e))"
    by (rule export_rejects_invalid_data) (simp add: spec_hasBadCell_def spec_badCell_def)
  from a b c show ?thesis
    by (simp add: exportToExcel_def validateDataBeforeExport_def)
qed

lemma export_accepts_valid_data:
  assumes "data \<noteq> []" and "\<forall>r \<in> set data. \<not> spec_notArray r \<and> \<not> spec_hasBadCell r"
  shows "fst (exportToExcel env data fileName)
         = [CreatedWorksheet, CreatedWorkbook, CalledWriteFile fileName]"
proof -
  from assms have "validateDataBeforeExport data = None" by (simp add: validate_export_None)
  then show ?thesis by (simp add: exportToExcel_def Let_def split: option.split)
qed

subsection \<open>Table bounds\<close>

lemma firstIndex_Nil: "firstIndex P [] = None"
  by (simp add: firstIndex_def)

lemma firstIndex_Cons:
  "firstIndex P (x # xs)
   = (if P x then Some 0 else (case firstIndex P xs of None \<Rightarrow> None | Some k \<Rightarrow> Some (Suc k)))"
  by (simp add: firstIndex_def Let_def)


lemma firstIndex_Some:
  "firstIndex P xs = Some k \<longleftrightarrow> k < length xs \<and> P (xs ! k) \<and> (\<forall>i < k. \<not> P (xs ! i))"
proof (induction xs arbitrary: k)
  case Nil
  then show ?case by (simp add: firstIndex_Nil)
next
  case (Cons x xs)
  show ?case
  proof (cases "P x")
    case True
    then show ?thesis by (cases k) (auto simp: firstIndex_Cons)
  next
    case False
    show ?thesis
    proof (cases k)
      case 0
      with False show ?thesis by (simp add: firstIndex_Cons split: option.split)
    next
      case (Suc j)
      have "(\<forall>i < Suc j. \<not> P ((x # xs) ! i)) \<longleftrightarrow> (\<forall>i < j. \<not> P (xs ! i))"
        using False by (auto simp: less_Suc_eq_0_disj)
      with False Suc Cons.IH[of j] show ?thesis
        by (auto simp: firstIndex_Cons split: option.split)
    qed
  qed
qed

lemma firstIndex_None: "firstIndex P xs = None \<longleftrightarrow> (\<forall>x \<in> set xs. \<not> P x)"
  by (induction xs) (auto simp: firstIndex_Nil firstIndex_Cons split: option.split)









text \<open>
  On the matrix of a statement with a footer the empty separator row is an array of
  length 0: the end loop passes it over, the footer label "Total Debits:" carries a
  colon, and the table runs to the last row.
\<close>

lemma table_bounds_with_footer:
  "findTransactionTableBounds sampleHost
     (map Row (formatStructuredDataForExcel (Some abcStatementWithFooter)))
   = \<lparr>startRow = 2, endRow = 5, headerRow = 2\<rparr>
   \<and> spec_tableBounds sampleHost
     (map Row (formatStructuredDataForExcel (Some abcStatementWithFooter)))
   = \<lparr>startRow = 2, endRow = 3, headerRow = 2\<rparr>"
  by code_simp

subsection \<open>Cell typing\<close>

lemma abcMatrix_rows:
  "abcMatrix =
     [Row [JStr ''Bank Name:'', JStr ''ABC''],
      Row [],
      Row [JStr ''Date'', JStr ''Description'', JStr ''Paid Out'', JStr ''Paid In'', JStr ''Balance''],
      Row [JStr ''2024-02-03'', JStr ''X'', JNum 24.5, JNull, JNum 39975.5]]"
  by (simp add: abcMatrix_def formatStructuredDataForExcel_def abcDocument_def abcHeader_def
      headerRows_def textRow_def numberRow_def Let_def transactionHeaders_def dataRow_def
      petrol_def numberOrNull_def)

lemma firstCellLower_text: "firstCellLower env (JStr s # cs) = toLowerCase s"
  by (cases "s = []") (simp_all add: firstCellLower_def toStringJS_def Let_def)

lemma firstCellLower_none: "firstCellLower env [] = []"
  by (simp add: firstCellLower_def toStringJS_def toLowerCase_def)

lemma lower_samples:
  "toLowerCase ''Bank Name:'' = ''bank name:''"
  "toLowerCase ''Date'' = ''date''"
  "toLowerCase ''2024-02-03'' = ''2024-02-03''"
  by code_simp+

lemma abcMatrix_bounds:
  "findTransactionTableBounds env abcMatrix = \<lparr>startRow = 2, endRow = 3, headerRow = 2\<rparr>"
  by (simp add: abcMatrix_rows findTransactionTableBounds_def isTransactionHeaderRow_def
      isTableEndRow_def firstCellLower_text firstCellLower_none lower_samples Let_def)

lemma date_sample: "matchesDatePattern ''2024-02-03''" "isoDateDay ''2024-02-03'' = Some 19756"
  by code_simp+

text \<open>
  Claim C5, as the code has it.  The matrix of the statement with header
  \<open>{bankName: "ABC"}\<close>, the one transaction and no footer has four rows, indices 0 to 3;
  the header row is detected at index 2.  The cell at column 0 of row index 3 becomes a
  date cell, the numbers in columns 2 and 4 of that row are typed numeric with the format
  "#,##0.00", column 3 holds \<open>null\<close> and has no cell, and the freeze pane is set at row
  index 3, the row after the header row.
\<close>

theorem abc_sheet_typing:
  "length abcMatrix = 4
   \<and> headerRow (findTransactionTableBounds env abcMatrix) = 2
   \<and> sheetCells (buildWorksheet env abcMatrix) (3, 0)
       = Some \<lparr>cellV = DateOf ''2024-02-03'', cellT = DateCell, cellZ = Some ''yyyy-mm-dd''\<rparr>
   \<and> sheetCells (buildWorksheet env abcMatrix) (3, 2)
       = Some \<lparr>cellV = Plain (JNum 24.5), cellT = NumberCell, cellZ = Some ''#,##0.00''\<rparr>
   \<and> sheetCells (buildWorksheet env abcMatrix) (3, 3) = None
   \<and> sheetCells (buildWorksheet env abcMatrix) (3, 4)
       = Some \<lparr>cellV = Plain (JNum 39975.5), cellT = NumberCell, cellZ = Some ''#,##0.00''\<rparr>
   \<and> freezeYSplit (buildWorksheet env abcMatrix) = Some 3
   \<and> freezeTopLeft (buildWorksheet env abcMatrix) = Some (3, 0)"
proof -
  have cells: "aoa_to_sheet abcMatrix (3, 0) = Some (JStr ''2024-02-03'')"
    "aoa_to_sheet abcMatrix (3, 2) = Some (JNum 24.5)"
    "aoa_to_sheet abcMatrix (3, 3) = None"
    "aoa_to_sheet abcMatrix (3, 4) = Some (JNum 39975.5)"
    by (simp_all add: aoa_to_sheet_def abcMatrix_rows)
  have len: "length abcMatrix = 4" by (simp add: abcMatrix_rows)
  show ?thesis
    by (simp add: len buildWorksheet_def Let_def abcMatrix_bounds cells typeCell_def date_sample
        localMidnightValid_def)
qed

text \<open>On the sample host: the date cell and the two numeric cells of row index 3.\<close>

theorem abc_sheet_typing_witness:
  "isDateCell (sheetCells (buildWorksheet sampleHost abcMatrix) (3, 0))
   \<and> isTwoDecimalNumber (sheetCells (buildWorksheet sampleHost abcMatrix) (3, 2))
   \<and> isTwoDecimalNumber (sheetCells (buildWorksheet sampleHost abcMatrix) (3, 4))"
  using abc_sheet_typing[of sampleHost]
  by (simp add: isDateCell_def isTwoDecimalNumber_def)

text \<open>
  The claim as the specification words it fails: the sheet has no row with index 4, and
  at row index 3 the cell of column 3 is absent, so it is not typed numeric.
\<close>

theorem abc_sheet_typing_counterexample:
  "\<not> spec_typedAtRow (buildWorksheet sampleHost abcMatrix) 4
   \<and> \<not> spec_typedAtRow (buildWorksheet sampleHost abcMatrix) 3
   \<and> sheetCells (buildWorksheet sampleHost abcMatrix) (4, 0) = None
   \<and> freezeYSplit (buildWorksheet sampleHost abcMatrix) \<noteq> Some 4"
proof -
  have len: "length abcMatrix = 4" by (simp add: abcMatrix_rows)
  have c: "aoa_to_sheet abcMatrix (4, 0) = None"
    by (simp add: aoa_to_sheet_def len)
  have d: "aoa_to_sheet abcMatrix (3, 3) = None"
    by (simp add: aoa_to_sheet_def abcMatrix_rows)
  show ?thesis
    by (simp add: spec_typedAtRow_def buildWorksheet_def Let_def c d abcMatrix_bounds
        isDateCell_def isTwoDecimalNumber_def)
qed

section \<open>Properties of the structuring flow\<close>




section \<open>Properties of the raw-text stage\<close>

text \<open>
  Claim C3, as the code has it.  The OCR path is taken if and only if the text of the
  direct extraction has at most 100 characters; a longer text is used as it is.  A text
  of exactly 100 characters goes to OCR.
\<close>

theorem ocr_fallback_threshold:
  "(\<not> usesDirectText directText \<longleftrightarrow> length directText \<le> 100)
   \<and> rawTextOutput directText run
     = (if length directText \<le> 100 then ocrFallback run else Inr directText)"
  by (auto simp: usesDirectText_def rawTextOutput_def MIN_TEXT_LENGTH_FOR_TEXT_PDF_def)

text \<open>A text of 100 characters goes to OCR, a text of 101 characters is used.\<close>

theorem ocr_fallback_threshold_witness:
  "rawTextOutput (replicate 100 (CHR ''a'')) (ocrRunOf [scannedPage (Inr (Some ''page''))])
     = ocrFallback (ocrRunOf [scannedPage (Inr (Some ''page''))])
   \<and> rawTextOutput (replicate 101 (CHR ''a'')) (ocrRunOf [scannedPage (Inr (Some ''page''))])
     = Inr (replicate 101 (CHR ''a''))"
  using ocr_fallback_threshold[of "replicate 100 (CHR ''a'')" "ocrRunOf [scannedPage (Inr (Some ''page''))]"]
        ocr_fallback_threshold[of "replicate 101 (CHR ''a'')" "ocrRunOf [scannedPage (Inr (Some ''page''))]"]
  by simp

text \<open>
  The claim as the specification words it fails at length 100: the length is not below
  the threshold, and the result is the text of the OCR run.
\<close>

theorem ocr_fallback_threshold_counterexample:
  "length (replicate 100 (CHR ''a'')) = 100
   \<and> \<not> spec_fallsBackToOcr (replicate 100 (CHR ''a''))
   \<and> \<not> usesDirectText (replicate 100 (CHR ''a''))
   \<and> rawTextOutput (replicate 100 (CHR ''a'')) (ocrRunOf [scannedPage (Inr (Some ''page''))])
       = Inr (''page'' @ pageBreak)"
  by (simp add: spec_fallsBackToOcr_def usesDirectText_def MIN_TEXT_LENGTH_FOR_TEXT_PDF_def
      rawTextOutput_def ocrFallback_def convertPdfPagesToImageUrisIncremental_def ocrRunOf_def
      scannedPage_def onPageProcessed_def pageBreak_def)

subsection \<open>The OCR run\<close>

lemma onPageProcessed_undisturbed:
  "pageUndisturbed p \<Longrightarrow> onPageProcessed p acc = Inr (acc @ pageText p)"
  by (cases "recognise p")
     (auto simp: pageUndisturbed_def onPageProcessed_def pageText_def split: option.splits)

lemma pageLoop_undisturbed:
  "list_all pageUndisturbed ps \<Longrightarrow>
   pageLoop onPageProcessed ps acc = Inr (acc @ concat (map pageText ps))"
proof (induction ps arbitrary: acc)
  case Nil
  then show ?case by simp
next
  case (Cons p ps)
  then have u: "pageUndisturbed p" and rest: "list_all pageUndisturbed ps" by simp_all
  from u obtain imageUri where r: "renderPage p = Inr imageUri" and nb: "\<not> abortedBeforePage p"
    by (cases "renderPage p") (auto simp: pageUndisturbed_def)
  show ?case
    using Cons.IH[OF rest, of "acc @ pageText p"] r nb onPageProcessed_undisturbed[OF u, of acc]
    by simp
qed

lemma recognition_error_propagates_only_if_cancelled:
  assumes "onPageProcessed p acc = Inl e"
  shows "abortedInCallback p
         \<or> (recognise p = Inl e \<and> (isProcessingCancelledError e \<or> errorName e = ''AbortError''))"
  using assms
  by (cases "recognise p")
     (auto simp: onPageProcessed_def split: if_splits option.splits)

text \<open>
  Claim C8, as the code has it.  In a run in which the document opens, the signal is
  never aborted, every page renders, and every failure of the recognition call is
  neither a cancellation nor an abort error, each such failure is passed over and the
  texts of the other pages are accumulated in page order.  The run then fails in one case
  only: when no page has contributed any text, with the error "OCR failed to extract any
  text from the document."
\<close>

theorem ocr_skips_failed_pages:
  assumes "openDocument run = None" and "list_all pageUndisturbed (pageRuns run)"
  shows "ocrFallback run
         = (if concat (map pageText (pageRuns run)) = []
            then Inl (OtherError ''Error'' ''OCR failed to extract any text from the document.'')
            else Inr (concat (map pageText (pageRuns run))))"
  using assms pageLoop_undisturbed[OF assms(2), of "[]"]
  by (simp add: ocrFallback_def convertPdfPagesToImageUrisIncremental_def)

text \<open>Page 3 of 5 fails recognition; pages 1, 2, 4 and 5 give the text, in order.\<close>

theorem ocr_skips_failed_pages_witness:
  "ocrFallback (ocrRunOf
      [scannedPage (Inr (Some ''one'')), scannedPage (Inr (Some ''two'')),
       scannedPage (Inl quotaError),
       scannedPage (Inr (Some ''four'')), scannedPage (Inr (Some ''five''))])
   = Inr (''one'' @ pageBreak @ ''two'' @ pageBreak @ ''four'' @ pageBreak @ ''five'' @ pageBreak)"
proof -
  let ?run = "ocrRunOf
      [scannedPage (Inr (Some ''one'')), scannedPage (Inr (Some ''two'')),
       scannedPage (Inl quotaError),
       scannedPage (Inr (Some ''four'')), scannedPage (Inr (Some ''five''))]"
  have o: "openDocument ?run = None" by (simp add: ocrRunOf_def)
  have u: "list_all pageUndisturbed (pageRuns ?run)"
    by (simp add: ocrRunOf_def scannedPage_def pageUndisturbed_def quotaError_def)
  show ?thesis
    using ocr_skips_failed_pages[OF o u]
    by (simp add: ocrRunOf_def scannedPage_def pageText_def quotaError_def pageBreak_def)
qed

text \<open>
  The claim as the specification words it fails on a one-page document whose recognition
  fails: nothing is cancelled and the page renders, and the run fails.
\<close>

theorem ocr_skips_failed_pages_counterexample:
  "ocrFallback (ocrRunOf [scannedPage (Inl quotaError)])
     = Inl (OtherError ''Error'' ''OCR failed to extract any text from the document.'')
   \<and> \<not> abortedBeforePage (scannedPage (Inl quotaError))
   \<and> \<not> abortedInCallback (scannedPage (Inl quotaError))
   \<and> \<not> abortedWhenCaught (ocrRunOf [scannedPage (Inl quotaError)])
   \<and> renderPage (scannedPage (Inl quotaError)) = Inr ''data:image/jpeg;base64,''
   \<and> openDocument (ocrRunOf [scannedPage (Inl quotaError)]) = None"
  by (simp add: ocrFallback_def convertPdfPagesToImageUrisIncremental_def ocrRunOf_def
      scannedPage_def onPageProcessed_def quotaError_def)

end
